theory Spec2Isabelle
  imports Complex_Main "HOL-Library.AList"
begin

section \<open>Floating-point values\<close>

text \<open>
  Every number of \<^verbatim>\<open>strategy.py\<close> is a float64 held in a pandas Series. The model
  keeps the special values that decide the control flow of the program (not-a-number and
  the two infinities, with the IEEE 754 rules for them) and takes a finite value as an
  exact rational: rounding, overflow of finite results and the sign of zero are not
  modelled (a zero divisor counts as \<open>+0\<close>, which is what the program's divisors are:
  an absolute value, a sum of volumes).
\<close>

datatype fl = Fin rat | PInf | NInf | NaN

fun fl_neg :: "fl \<Rightarrow> fl" where
  "fl_neg (Fin x) = Fin (- x)"
| "fl_neg PInf = NInf"
| "fl_neg NInf = PInf"
| "fl_neg NaN = NaN"

fun fl_add :: "fl \<Rightarrow> fl \<Rightarrow> fl" where
  "fl_add (Fin x) (Fin y) = Fin (x + y)"
| "fl_add (Fin x) PInf = PInf"
| "fl_add (Fin x) NInf = NInf"
| "fl_add PInf (Fin y) = PInf"
| "fl_add PInf PInf = PInf"
| "fl_add PInf NInf = NaN"
| "fl_add NInf (Fin y) = NInf"
| "fl_add NInf PInf = NaN"
| "fl_add NInf NInf = NInf"
| "fl_add NaN y = NaN"
| "fl_add x NaN = NaN"

definition fl_sub :: "fl \<Rightarrow> fl \<Rightarrow> fl" where
  "fl_sub x y = fl_add x (fl_neg y)"

fun fl_mul :: "fl \<Rightarrow> fl \<Rightarrow> fl" where
  "fl_mul (Fin x) (Fin y) = Fin (x * y)"
| "fl_mul (Fin x) PInf = (if x = 0 then NaN else if 0 < x then PInf else NInf)"
| "fl_mul (Fin x) NInf = (if x = 0 then NaN else if 0 < x then NInf else PInf)"
| "fl_mul PInf (Fin y) = (if y = 0 then NaN else if 0 < y then PInf else NInf)"
| "fl_mul NInf (Fin y) = (if y = 0 then NaN else if 0 < y then NInf else PInf)"
| "fl_mul PInf PInf = PInf"
| "fl_mul PInf NInf = NInf"
| "fl_mul NInf PInf = NInf"
| "fl_mul NInf NInf = PInf"
| "fl_mul NaN y = NaN"
| "fl_mul x NaN = NaN"

text \<open>
  numpy's true division: a finite nonzero value over zero is an infinity, zero over zero
  and infinity over infinity are not-a-number, and nothing raises.
\<close>

fun fl_div :: "fl \<Rightarrow> fl \<Rightarrow> fl" where
  "fl_div (Fin x) (Fin y) =
     (if y = 0 then (if x = 0 then NaN else if 0 < x then PInf else NInf) else Fin (x / y))"
| "fl_div (Fin x) PInf = Fin 0"
| "fl_div (Fin x) NInf = Fin 0"
| "fl_div PInf (Fin y) = (if 0 \<le> y then PInf else NInf)"
| "fl_div NInf (Fin y) = (if 0 \<le> y then NInf else PInf)"
| "fl_div PInf PInf = NaN"
| "fl_div PInf NInf = NaN"
| "fl_div NInf PInf = NaN"
| "fl_div NInf NInf = NaN"
| "fl_div NaN y = NaN"
| "fl_div x NaN = NaN"

fun fl_abs :: "fl \<Rightarrow> fl" where
  "fl_abs (Fin x) = Fin \<bar>x\<bar>"
| "fl_abs PInf = PInf"
| "fl_abs NInf = PInf"
| "fl_abs NaN = NaN"

text \<open>Comparisons: every comparison with not-a-number is false.\<close>

fun fl_lt :: "fl \<Rightarrow> fl \<Rightarrow> bool" where
  "fl_lt (Fin x) (Fin y) = (x < y)"
| "fl_lt (Fin x) PInf = True"
| "fl_lt NInf (Fin y) = True"
| "fl_lt NInf PInf = True"
| "fl_lt x y = False"

fun fl_le :: "fl \<Rightarrow> fl \<Rightarrow> bool" where
  "fl_le (Fin x) (Fin y) = (x \<le> y)"
| "fl_le (Fin x) PInf = True"
| "fl_le NInf (Fin y) = True"
| "fl_le NInf PInf = True"
| "fl_le PInf PInf = True"
| "fl_le NInf NInf = True"
| "fl_le x y = False"

definition fl_gt :: "fl \<Rightarrow> fl \<Rightarrow> bool" where
  "fl_gt x y = fl_lt y x"

definition fl_ge :: "fl \<Rightarrow> fl \<Rightarrow> bool" where
  "fl_ge x y = fl_le y x"

text \<open>\<^verbatim>\<open>x == x\<close>, the test for "is an observation" (false exactly for not-a-number).\<close>

fun is_observation :: "fl \<Rightarrow> bool" where
  "is_observation NaN = False"
| "is_observation x = True"

section \<open>Rows, errors and the Signal Evaluator\<close>

text \<open>
  A row (\<^verbatim>\<open>latest_qqq_data.iloc[-1]\<close>) is a pandas Series indexed by column name:
  a partial map from names to floats. Reading a missing label raises \<^verbatim>\<open>KeyError\<close>.
\<close>

type_synonym row = "string \<rightharpoonup> fl"

datatype error = KeyError string | ValueError string

definition getitem :: "row \<Rightarrow> string \<Rightarrow> error + fl" where
  "getitem data_row k = (case data_row k of None \<Rightarrow> Inl (KeyError k) | Some v \<Rightarrow> Inr v)"

text \<open>
  The body of the \<^verbatim>\<open>try\<close> of \<^verbatim>\<open>check_entry_condition_latest\<close>: the three
  conditions are computed one after the other (reading RSI, the close, EMA, the close
  again and VWAP), then joined by \<^verbatim>\<open>and\<close>.
\<close>

definition entry_try :: "row \<Rightarrow> error + bool" where
  "entry_try data_row =
     (let rsi_threshold = Fin 45 in
      (case getitem data_row ''RSI'' of Inl e \<Rightarrow> Inl e | Inr rsi \<Rightarrow>
      (let rsi_condition = fl_gt rsi rsi_threshold in
      (case getitem data_row ''Close_QQQ'' of Inl e \<Rightarrow> Inl e | Inr close1 \<Rightarrow>
      (case getitem data_row ''EMA'' of Inl e \<Rightarrow> Inl e | Inr ema \<Rightarrow>
      (let ema_condition = fl_gt close1 ema in
      (case getitem data_row ''Close_QQQ'' of Inl e \<Rightarrow> Inl e | Inr close2 \<Rightarrow>
      (case getitem data_row ''VWAP'' of Inl e \<Rightarrow> Inl e | Inr vwap \<Rightarrow>
      (let vwap_condition = fl_gt close2 vwap in
       Inr (rsi_condition \<and> (ema_condition \<and> vwap_condition)))))))))))"

text \<open>\<^verbatim>\<open>str\<close> of a \<^verbatim>\<open>KeyError\<close> is the key's \<^verbatim>\<open>repr\<close>: the key between single quotes.\<close>

definition key_repr :: "string \<Rightarrow> string" where
  "key_repr k = [CHR 0x27] @ k @ [CHR 0x27]"

text \<open>
  \<^verbatim>\<open>check_entry_condition_latest\<close>: the lines printed, and what the caller gets
  (\<open>Inr\<close> a returned value, \<open>Inl\<close> an exception that leaves the function). The
  \<^verbatim>\<open>except\<close> clause catches \<^verbatim>\<open>KeyError\<close> only.
\<close>

definition check_entry_condition_latest :: "row \<Rightarrow> string list \<times> (error + bool)" where
  "check_entry_condition_latest data_row =
     (case entry_try data_row of
        Inr b \<Rightarrow> ([], Inr b)
      | Inl (KeyError k) \<Rightarrow>
          ([''Error accessing indicator columns in entry check: '' @ key_repr k], Inr False)
      | Inl e \<Rightarrow> ([], Inl e))"

text \<open>The defaults of the keyword parameters of \<^verbatim>\<open>check_exit_condition_latest\<close>.\<close>

definition take_profit_percentage_default :: fl where
  "take_profit_percentage_default = Fin (5 / 2)"

definition stop_loss_percentage_default :: fl where
  "stop_loss_percentage_default = Fin (1 / 2)"

definition trailing_stop_percentage_default :: fl where
  "trailing_stop_percentage_default = Fin 1"

text \<open>
  \<^verbatim>\<open>check_exit_condition_latest\<close>: \<^verbatim>\<open>buy_price\<close> is \<^verbatim>\<open>None\<close> or a float. The
  read of the close is outside any \<^verbatim>\<open>try\<close>, so a missing close leaves the function
  as a \<^verbatim>\<open>KeyError\<close>. The trailing-stop parameter is accepted and never read.
\<close>

definition check_exit_condition_latest ::
  "row \<Rightarrow> fl option \<Rightarrow> fl \<Rightarrow> fl \<Rightarrow> fl \<Rightarrow> error + (bool \<times> string option)" where
  "check_exit_condition_latest data_row buy_price take_profit_percentage
       stop_loss_percentage trailing_stop_percentage =
     (case buy_price of
        None \<Rightarrow> Inr (False, None)
      | Some bp \<Rightarrow>
         (case getitem data_row ''Close_QQQ'' of
            Inl e \<Rightarrow> Inl e
          | Inr current_price \<Rightarrow>
             (let take_profit_price =
                    fl_mul bp (fl_add (Fin 1) (fl_div take_profit_percentage (Fin 100)));
                  take_profit_hit = fl_ge current_price take_profit_price
              in if take_profit_hit then Inr (True, Some ''Take Profit'')
                 else
                  (let stop_loss_price =
                         fl_mul bp (fl_sub (Fin 1) (fl_div stop_loss_percentage (Fin 100)));
                       stop_loss_hit = fl_le current_price stop_loss_price
                   in if stop_loss_hit then Inr (True, Some ''Stop Loss'')
                      else Inr (False, None)))))"

text \<open>
  The Exit check as the specification words it, with a peak price and a trailing stop:
  the reference the program's exit check is compared with.
\<close>

datatype exit_reason = TakeProfit | StopLoss | TrailingStop

definition spec_exit_check :: "fl \<Rightarrow> fl \<Rightarrow> fl \<Rightarrow> exit_reason option" where
  "spec_exit_check close_price entry_price peak_price_since_entry =
     (if fl_ge close_price (fl_mul entry_price (Fin (1025 / 1000))) then Some TakeProfit
      else if fl_le close_price (fl_mul entry_price (Fin (995 / 1000))) then Some StopLoss
      else if fl_le close_price (fl_mul peak_price_since_entry (Fin (99 / 100)))
        then Some TrailingStop
      else None)"

section \<open>The Indicator Engine\<close>

subsection \<open>Series operations of pandas\<close>

text \<open>
  A Series is the list of its values; two Series of one frame share their index, so a
  binary operation works position by position.

  \<^verbatim>\<open>diff()\<close>: the first value has no predecessor and is not-a-number.
\<close>

definition diff :: "fl list \<Rightarrow> fl list" where
  "diff xs = (case xs of [] \<Rightarrow> [] | _ # rest \<Rightarrow> NaN # map2 (\<lambda>prev cur. fl_sub cur prev) xs rest)"

text \<open>
  \<^verbatim>\<open>cumsum()\<close> (with \<^verbatim>\<open>skipna=True\<close>): not-a-number entries count as 0 in the
  running sum and stay not-a-number in the result.
\<close>

fun cumsum_from :: "fl \<Rightarrow> fl list \<Rightarrow> fl list" where
  "cumsum_from acc [] = []"
| "cumsum_from acc (x # xs) =
     (if is_observation x
      then (let acc' = fl_add acc x in acc' # cumsum_from acc' xs)
      else NaN # cumsum_from (fl_add acc (Fin 0)) xs)"

definition cumsum :: "fl list \<Rightarrow> fl list" where
  "cumsum xs = cumsum_from (Fin 0) xs"

text \<open>
  \<^verbatim>\<open>ewm(..., adjust=False).mean()\<close>, the loop of pandas' \<^verbatim>\<open>ewm\<close> aggregation with
  \<^verbatim>\<open>ignore_na=False\<close>: \<open>weighted\<close> is the running average, \<open>old_wt\<close> the weight
  of the past (it decays over missing observations and is reset to 1 by each
  observation), \<open>nobs\<close> the number of observations so far and \<open>minp\<close> the least
  number of them for a defined result (1 by default).
\<close>

fun ewm_loop :: "rat \<Rightarrow> nat \<Rightarrow> fl \<Rightarrow> rat \<Rightarrow> nat \<Rightarrow> fl list \<Rightarrow> fl list" where
  "ewm_loop alpha minp weighted old_wt nobs [] = []"
| "ewm_loop alpha minp weighted old_wt nobs (cur # rest) =
     (let is_obs = is_observation cur;
          nobs' = (if is_obs then nobs + 1 else nobs);
          old_wt_factor = 1 - alpha;
          new_wt = alpha;
          weighted' =
            (if is_observation weighted then
               (if is_obs then
                  (if weighted \<noteq> cur
                   then fl_div (fl_add (fl_mul (Fin (old_wt * old_wt_factor)) weighted)
                                       (fl_mul (Fin new_wt) cur))
                               (Fin (old_wt * old_wt_factor + new_wt))
                   else weighted)
                else weighted)
             else if is_obs then cur else weighted);
          old_wt' =
            (if is_observation weighted then
               (if is_obs then 1 else old_wt * old_wt_factor)
             else old_wt)
      in (if minp \<le> nobs' then weighted' else NaN)
           # ewm_loop alpha minp weighted' old_wt' nobs' rest)"

definition ewm_mean :: "rat \<Rightarrow> fl list \<Rightarrow> fl list" where
  "ewm_mean com vals =
     (case vals of
        [] \<Rightarrow> []
      | v0 # rest \<Rightarrow>
         (let alpha = 1 / (1 + com);
              minp = 1;
              nobs = (if is_observation v0 then 1 else 0)
          in (if minp \<le> nobs then v0 else NaN) # ewm_loop alpha minp v0 1 nobs rest))"

text \<open>
  The two ways the program names the decay: a centre of mass (\<^verbatim>\<open>com\<close>, which
  must not be negative) and a span (at least 1, and then \<^verbatim>\<open>com = (span - 1) / 2\<close>).
\<close>

definition ewm_com :: "rat \<Rightarrow> fl list \<Rightarrow> error + fl list" where
  "ewm_com com vals =
     (if com < 0 then Inl (ValueError ''comass must satisfy: comass >= 0'')
      else Inr (ewm_mean com vals))"

definition ewm_span :: "rat \<Rightarrow> fl list \<Rightarrow> error + fl list" where
  "ewm_span span_arg vals =
     (if span_arg < 1 then Inl (ValueError ''span must satisfy: span >= 1'')
      else Inr (ewm_mean ((span_arg - 1) / 2) vals))"

subsection \<open>\<^verbatim>\<open>calculate_rsi\<close>\<close>

definition rsi_gain :: "fl list \<Rightarrow> fl list" where
  "rsi_gain data = map (\<lambda>d. if fl_lt d (Fin 0) then Fin 0 else d) (diff data)"

definition rsi_loss :: "fl list \<Rightarrow> fl list" where
  "rsi_loss data = map fl_abs (map (\<lambda>d. if fl_gt d (Fin 0) then Fin 0 else d) (diff data))"

definition rsi_avg_gain :: "fl list \<Rightarrow> rat \<Rightarrow> error + fl list" where
  "rsi_avg_gain data period = ewm_com (period - 1) (rsi_gain data)"

definition rsi_avg_loss :: "fl list \<Rightarrow> rat \<Rightarrow> error + fl list" where
  "rsi_avg_loss data period = ewm_com (period - 1) (rsi_loss data)"

definition rsi_of_rs :: "fl \<Rightarrow> fl" where
  "rsi_of_rs rs = fl_sub (Fin 100) (fl_div (Fin 100) (fl_add (Fin 1) rs))"

definition calculate_rsi :: "fl list \<Rightarrow> rat \<Rightarrow> error + fl list" where
  "calculate_rsi data period =
     (case rsi_avg_gain data period of Inl e \<Rightarrow> Inl e | Inr avg_gain \<Rightarrow>
      (case rsi_avg_loss data period of Inl e \<Rightarrow> Inl e | Inr avg_loss \<Rightarrow>
      (let rs = map2 fl_div avg_gain avg_loss;
           rsi = map rsi_of_rs rs
       in Inr rsi)))"

definition rsi_period_default :: rat where
  "rsi_period_default = 14"

subsection \<open>The frame and the indicator columns of \<^verbatim>\<open>run_strategy_check\<close>\<close>

text \<open>
  A DataFrame is the list of its columns, each a name and a Series, in column order.
  Reading a missing column raises \<^verbatim>\<open>KeyError\<close>; assigning a column replaces it or
  appends it; \<^verbatim>\<open>empty\<close> holds when there is no column or no row.
\<close>

type_synonym frame = "(string \<times> fl list) list"

definition getcol :: "frame \<Rightarrow> string \<Rightarrow> error + fl list" where
  "getcol df k = (case map_of df k of None \<Rightarrow> Inl (KeyError k) | Some xs \<Rightarrow> Inr xs)"

definition setcol :: "string \<Rightarrow> fl list \<Rightarrow> frame \<Rightarrow> frame" where
  "setcol k xs df = AList.update k xs df"

definition drop_columns :: "string list \<Rightarrow> frame \<Rightarrow> frame" where
  "drop_columns ks df = filter (\<lambda>(k, xs). k \<notin> set ks) df"

definition frame_empty :: "frame \<Rightarrow> bool" where
  "frame_empty df = (case df of [] \<Rightarrow> True | (k, xs) # _ \<Rightarrow> xs = [])"

definition iloc_last :: "frame \<Rightarrow> row" where
  "iloc_last df = map_of (map (\<lambda>(k, xs). (k, last xs)) df)"

text \<open>
  Lines 48 to 57: the VWAP columns, inside the \<^verbatim>\<open>try\<close> whose handler reports the
  \<^verbatim>\<open>KeyError\<close> and ends the run. The columns are read in the order high, low, close,
  volume (twice).
\<close>

definition vwap_columns :: "frame \<Rightarrow> error + frame" where
  "vwap_columns df =
     (case getcol df ''High_QQQ'' of Inl e \<Rightarrow> Inl e | Inr high \<Rightarrow>
      (case getcol df ''Low_QQQ'' of Inl e \<Rightarrow> Inl e | Inr low \<Rightarrow>
      (case getcol df ''Close_QQQ'' of Inl e \<Rightarrow> Inl e | Inr close_col \<Rightarrow>
      (let typical_price =
             map (\<lambda>s. fl_div s (Fin 3)) (map2 fl_add (map2 fl_add high low) close_col);
           df1 = setcol ''Typical_Price'' typical_price df in
      (case getcol df1 ''Volume_QQQ'' of Inl e \<Rightarrow> Inl e | Inr volume \<Rightarrow>
      (let cumulative_tp_volume = cumsum (map2 fl_mul typical_price volume);
           df2 = setcol ''Cumulative_TP_Volume'' cumulative_tp_volume df1;
           cumulative_volume = cumsum volume;
           df3 = setcol ''Cumulative_Volume'' cumulative_volume df2
       in Inr (setcol ''VWAP'' (map2 fl_div cumulative_tp_volume cumulative_volume)
                 df3)))))))"

text \<open>
  Lines 60 to 68: EMA and RSI of the close, then the three helper columns are dropped
  (they were assigned just before, so the drop finds them).
\<close>

definition ema_period :: rat where
  "ema_period = 15"

definition ema_rsi_columns :: "frame \<Rightarrow> error + frame" where
  "ema_rsi_columns df =
     (case getcol df ''Close_QQQ'' of Inl e \<Rightarrow> Inl e | Inr close_col \<Rightarrow>
      (case ewm_span ema_period close_col of Inl e \<Rightarrow> Inl e | Inr ema \<Rightarrow>
      (let df1 = setcol ''EMA'' ema df in
      (case getcol df1 ''Close_QQQ'' of Inl e \<Rightarrow> Inl e | Inr close_col' \<Rightarrow>
      (case calculate_rsi close_col' rsi_period_default of Inl e \<Rightarrow> Inl e | Inr rsi \<Rightarrow>
      (let df2 = setcol ''RSI'' rsi df1
       in Inr (drop_columns
                 [''Typical_Price'', ''Cumulative_TP_Volume'', ''Cumulative_Volume'']
                 df2)))))))"

text \<open>
  \<^verbatim>\<open>run_strategy_check\<close> from the fetched frame with flattened column names on: what
  the run ends with. Fetching and the delivery of the messages are outside the model; an
  entry alert carries the latest row.
\<close>

datatype outcome =
    CouldNotFetch
  | ColumnsError string
  | NoDataPoints
  | EntrySignal row
  | NoEntrySignal
  | Raised error

definition run_strategy_check :: "frame \<Rightarrow> outcome" where
  "run_strategy_check latest_qqq_data =
     (if frame_empty latest_qqq_data then CouldNotFetch
      else (case vwap_columns latest_qqq_data of
        Inl (KeyError k) \<Rightarrow> ColumnsError k
      | Inl e \<Rightarrow> Raised e
      | Inr df \<Rightarrow>
         (case ema_rsi_columns df of
            Inl e \<Rightarrow> Raised e
          | Inr df' \<Rightarrow>
             (if frame_empty df' then NoDataPoints
              else (let latest_row = iloc_last df' in
                    (case snd (check_entry_condition_latest latest_row) of
                       Inl e \<Rightarrow> Raised e
                     | Inr b \<Rightarrow> (if b then EntrySignal latest_row else NoEntrySignal)))))))"

text \<open>
  A Bar Series as the market-data collaborator delivers it: one bar per row, in the
  five columns the program reads after flattening.
\<close>

record bar =
  bar_open :: fl
  bar_high :: fl
  bar_low :: fl
  bar_close :: fl
  bar_volume :: fl

definition frame_of_bars :: "bar list \<Rightarrow> frame" where
  "frame_of_bars bars =
     [(''Close_QQQ'', map bar_close bars),
      (''High_QQQ'', map bar_high bars),
      (''Low_QQQ'', map bar_low bars),
      (''Open_QQQ'', map bar_open bars),
      (''Volume_QQQ'', map bar_volume bars)]"

text \<open>The indicator columns of a Bar Series, as the run computes them.\<close>

definition indicators :: "bar list \<Rightarrow> error + frame" where
  "indicators bars =
     (case vwap_columns (frame_of_bars bars) of
        Inl e \<Rightarrow> Inl e
      | Inr df \<Rightarrow> ema_rsi_columns df)"

section \<open>Notions used in the proofs\<close>

text \<open>A value that is not negative: zero or more, plus infinity, or not-a-number.\<close>

fun not_negative :: "fl \<Rightarrow> bool" where
  "not_negative (Fin x) = (0 \<le> x)"
| "not_negative PInf = True"
| "not_negative NInf = False"
| "not_negative NaN = True"

text \<open>
  The typical prices and the VWAP column of a Bar Series, as \<open>vwap_columns\<close> computes
  them.
\<close>

definition typical_price_of :: "bar list \<Rightarrow> fl list" where
  "typical_price_of bars =
     map (\<lambda>s. fl_div s (Fin 3))
       (map2 fl_add (map2 fl_add (map bar_high bars) (map bar_low bars)) (map bar_close bars))"

definition vwap_of :: "bar list \<Rightarrow> fl list" where
  "vwap_of bars =
     map2 fl_div (cumsum (map2 fl_mul (typical_price_of bars) (map bar_volume bars)))
                 (cumsum (map bar_volume bars))"

text \<open>The bar of the flat, zero-volume scenario.\<close>

definition flat_bar :: bar where
  "flat_bar = \<lparr>bar_open = Fin 100, bar_high = Fin 100, bar_low = Fin 100,
               bar_close = Fin 100, bar_volume = Fin 0\<rparr>"

section \<open>Properties of the Signal Evaluator\<close>

subsection \<open>Auxiliary facts\<close>

lemma fl_gt_NaN [simp]: "\<not> fl_gt NaN y" "\<not> fl_gt x NaN"
  by (cases y; simp add: fl_gt_def) (cases x; simp add: fl_gt_def)

lemma take_profit_factor:
  "fl_add (Fin 1) (fl_div take_profit_percentage_default (Fin 100)) = Fin (1025 / 1000)"
  by (simp add: take_profit_percentage_default_def)

lemma stop_loss_factor:
  "fl_sub (Fin 1) (fl_div stop_loss_percentage_default (Fin 100)) = Fin (995 / 1000)"
  by (simp add: stop_loss_percentage_default_def fl_sub_def)

lemma exit_check_defaults:
  "data_row ''Close_QQQ'' = Some c \<Longrightarrow>
   check_exit_condition_latest data_row (Some entry_price) take_profit_percentage_default
       stop_loss_percentage_default ts =
     Inr (if fl_ge c (fl_mul entry_price (Fin (1025 / 1000))) then (True, Some ''Take Profit'')
          else if fl_le c (fl_mul entry_price (Fin (995 / 1000))) then (True, Some ''Stop Loss'')
          else (False, None))"
  unfolding check_exit_condition_latest_def take_profit_factor stop_loss_factor
  by (simp add: getitem_def)

lemma entry_try_missing:
  "data_row ''RSI'' = None \<or> data_row ''Close_QQQ'' = None \<or> data_row ''EMA'' = None \<or>
   data_row ''VWAP'' = None \<Longrightarrow>
   \<exists>k \<in> set [''RSI'', ''Close_QQQ'', ''EMA'', ''VWAP''].
      data_row k = None \<and> entry_try data_row = Inl (KeyError k)"
  by (auto simp add: entry_try_def getitem_def split: option.splits)

lemma entry_try_result:
  "entry_try data_row = Inr b \<Longrightarrow>
   \<exists>rsi c ema vwap. data_row ''RSI'' = Some rsi \<and> data_row ''Close_QQQ'' = Some c \<and>
     data_row ''EMA'' = Some ema \<and> data_row ''VWAP'' = Some vwap \<and>
     b = (fl_gt rsi (Fin 45) \<and> fl_gt c ema \<and> fl_gt c vwap)"
  by (auto simp add: entry_try_def getitem_def split: option.splits)

lemma entry_try_KeyError: "entry_try data_row = Inl e \<Longrightarrow> \<exists>k. e = KeyError k"
  by (auto simp add: entry_try_def getitem_def split: option.splits)

lemma entry_check_complete:
  assumes "data_row ''RSI'' = Some rsi" and "data_row ''Close_QQQ'' = Some c"
    and "data_row ''EMA'' = Some ema" and "data_row ''VWAP'' = Some vwap"
  shows "check_entry_condition_latest data_row =
           ([], Inr (fl_gt rsi (Fin 45) \<and> fl_gt c ema \<and> fl_gt c vwap))"
  using assms by (simp add: check_entry_condition_latest_def entry_try_def getitem_def)

lemma entry_check_nan:
  assumes "data_row ''RSI'' = Some NaN \<or> data_row ''Close_QQQ'' = Some NaN \<or>
    data_row ''EMA'' = Some NaN \<or> data_row ''VWAP'' = Some NaN"
  shows "snd (check_entry_condition_latest data_row) = Inr False"
proof (cases "entry_try data_row")
  case (Inl e)
  then show ?thesis
    using entry_try_KeyError [OF Inl] by (auto simp add: check_entry_condition_latest_def)
next
  case (Inr b)
  from entry_try_result [OF Inr] assms have "b = False" by auto
  with Inr show ?thesis by (simp add: check_entry_condition_latest_def)
qed

subsection \<open>The Entry check\<close>

text \<open>
  C1. On a row that holds RSI, EMA, VWAP and the close, the Entry check prints nothing and
  returns (it never raises) the truth value of: RSI, EMA and VWAP are all defined, and
  RSI > 45, and close > EMA, and close > VWAP. In particular, when any of the three
  indicators is not-a-number the result is the no-signal value \<open>False\<close>.
\<close>

theorem entry_check_rule:
  assumes "data_row ''RSI'' = Some rsi" and "data_row ''Close_QQQ'' = Some c"
    and "data_row ''EMA'' = Some ema" and "data_row ''VWAP'' = Some vwap"
  shows "check_entry_condition_latest data_row =
           ([], Inr (rsi \<noteq> NaN \<and> ema \<noteq> NaN \<and> vwap \<noteq> NaN \<and>
                     fl_gt rsi (Fin 45) \<and> fl_gt c ema \<and> fl_gt c vwap)) \<and>
         (rsi = NaN \<or> ema = NaN \<or> vwap = NaN \<longrightarrow>
           check_entry_condition_latest data_row = ([], Inr False))"
proof -
  have e: "entry_try data_row = Inr (fl_gt rsi (Fin 45) \<and> fl_gt c ema \<and> fl_gt c vwap)"
    using assms by (simp add: entry_try_def getitem_def)
  have d: "(fl_gt rsi (Fin 45) \<and> fl_gt c ema \<and> fl_gt c vwap) =
           (rsi \<noteq> NaN \<and> ema \<noteq> NaN \<and> vwap \<noteq> NaN \<and>
            fl_gt rsi (Fin 45) \<and> fl_gt c ema \<and> fl_gt c vwap)"
    by auto
  have "check_entry_condition_latest data_row =
           ([], Inr (rsi \<noteq> NaN \<and> ema \<noteq> NaN \<and> vwap \<noteq> NaN \<and>
                     fl_gt rsi (Fin 45) \<and> fl_gt c ema \<and> fl_gt c vwap))"
    using e d by (simp add: check_entry_condition_latest_def)
  moreover have "rsi = NaN \<or> ema = NaN \<or> vwap = NaN \<longrightarrow>
           check_entry_condition_latest data_row = ([], Inr False)"
    using e by (auto simp add: check_entry_condition_latest_def)
  ultimately show ?thesis by blast
qed

text \<open>
  The rule at two rows: one that triggers, and one whose VWAP is not-a-number.
\<close>

theorem entry_check_rule_witness:
  "check_entry_condition_latest
     [''RSI'' \<mapsto> Fin 50, ''Close_QQQ'' \<mapsto> Fin 101, ''EMA'' \<mapsto> Fin 100, ''VWAP'' \<mapsto> Fin 100]
     = ([], Inr True) \<and>
   check_entry_condition_latest
     [''RSI'' \<mapsto> Fin 50, ''Close_QQQ'' \<mapsto> Fin 101, ''EMA'' \<mapsto> Fin 100, ''VWAP'' \<mapsto> NaN]
     = ([], Inr False)"
  using entry_check_rule
      [of "[''RSI'' \<mapsto> Fin 50, ''Close_QQQ'' \<mapsto> Fin 101, ''EMA'' \<mapsto> Fin 100, ''VWAP'' \<mapsto> Fin 100]"
          "Fin 50" "Fin 101" "Fin 100" "Fin 100"]
    entry_check_rule
      [of "[''RSI'' \<mapsto> Fin 50, ''Close_QQQ'' \<mapsto> Fin 101, ''EMA'' \<mapsto> Fin 100, ''VWAP'' \<mapsto> NaN]"
          "Fin 50" "Fin 101" "Fin 100" NaN]
  by (simp add: fl_gt_def)

subsection \<open>The Exit check\<close>




text \<open>
  C4, as stated, fails: called with no buy price, the Exit check returns the ordinary
  pair \<open>(False, None)\<close>; the caller sees no failure.
\<close>

theorem exit_check_flat_counterexample:
  "check_exit_condition_latest [''Close_QQQ'' \<mapsto> Fin 100] None
     take_profit_percentage_default stop_loss_percentage_default
     trailing_stop_percentage_default = Inr (False, None) \<and>
   \<not> isl (check_exit_condition_latest [''Close_QQQ'' \<mapsto> Fin 100] None
     take_profit_percentage_default stop_loss_percentage_default
     trailing_stop_percentage_default)"
  by (simp add: check_exit_condition_latest_def)

text \<open>
  C4, amended. Invoked while flat (\<^verbatim>\<open>buy_price is None\<close>), the Exit check returns
  \<open>(False, None)\<close>, "no exit", for every row and every setting of the percentages,
  and raises nothing.
\<close>

theorem exit_check_flat:
  "check_exit_condition_latest data_row None tp sl ts = Inr (False, None)"
  by (simp add: check_exit_condition_latest_def)

subsection \<open>Missing and malformed fields\<close>

text \<open>
  C5, as stated, fails: on a row without the RSI column the Entry check prints one
  diagnostic line and returns \<open>False\<close>; the caller gets no error, only the value it
  also gets from a complete row that does not trigger.
\<close>

theorem entry_check_missing_field_counterexample:
  "check_entry_condition_latest
     [''Close_QQQ'' \<mapsto> Fin 101, ''EMA'' \<mapsto> Fin 100, ''VWAP'' \<mapsto> Fin 100] =
     ([''Error accessing indicator columns in entry check: '' @ key_repr ''RSI''], Inr False) \<and>
   \<not> isl (snd (check_entry_condition_latest
     [''Close_QQQ'' \<mapsto> Fin 101, ''EMA'' \<mapsto> Fin 100, ''VWAP'' \<mapsto> Fin 100])) \<and>
   snd (check_entry_condition_latest
     [''Close_QQQ'' \<mapsto> Fin 101, ''EMA'' \<mapsto> Fin 100, ''VWAP'' \<mapsto> Fin 100]) =
   snd (check_entry_condition_latest
     [''RSI'' \<mapsto> Fin 40, ''Close_QQQ'' \<mapsto> Fin 101, ''EMA'' \<mapsto> Fin 100, ''VWAP'' \<mapsto> Fin 100])"
  by (simp add: check_entry_condition_latest_def entry_try_def getitem_def fl_gt_def)

text \<open>
  C5, amended. When a required field (RSI, the close, EMA or VWAP) is missing from the
  evaluated row, the Entry check fails closed: it prints a diagnostic line naming a
  missing column and returns \<open>False\<close>, the no-signal value; when a required field is
  not-a-number it returns \<open>False\<close> as well. In neither case is a trigger returned or
  an error raised to the caller.
\<close>

theorem entry_check_fails_closed:
  "(data_row ''RSI'' = None \<or> data_row ''Close_QQQ'' = None \<or> data_row ''EMA'' = None \<or>
    data_row ''VWAP'' = None \<longrightarrow>
      (\<exists>k \<in> set [''RSI'', ''Close_QQQ'', ''EMA'', ''VWAP'']. data_row k = None \<and>
         check_entry_condition_latest data_row =
           ([''Error accessing indicator columns in entry check: '' @ key_repr k],
            Inr False))) \<and>
   (data_row ''RSI'' = Some NaN \<or> data_row ''Close_QQQ'' = Some NaN \<or>
    data_row ''EMA'' = Some NaN \<or> data_row ''VWAP'' = Some NaN \<longrightarrow>
      snd (check_entry_condition_latest data_row) = Inr False)"
proof (intro conjI impI)
  assume "data_row ''RSI'' = None \<or> data_row ''Close_QQQ'' = None \<or>
          data_row ''EMA'' = None \<or> data_row ''VWAP'' = None"
  from entry_try_missing [OF this]
  obtain k where "k \<in> set [''RSI'', ''Close_QQQ'', ''EMA'', ''VWAP'']"
    and "data_row k = None" and "entry_try data_row = Inl (KeyError k)"
    by blast
  then show "\<exists>k \<in> set [''RSI'', ''Close_QQQ'', ''EMA'', ''VWAP'']. data_row k = None \<and>
         check_entry_condition_latest data_row =
           ([''Error accessing indicator columns in entry check: '' @ key_repr k],
            Inr False)"
    by (intro bexI [of _ k]) (simp_all add: check_entry_condition_latest_def)
next
  assume nan: "data_row ''RSI'' = Some NaN \<or> data_row ''Close_QQQ'' = Some NaN \<or>
    data_row ''EMA'' = Some NaN \<or> data_row ''VWAP'' = Some NaN"
  then show "snd (check_entry_condition_latest data_row) = Inr False"
    by (rule entry_check_nan)
qed

text \<open>A row without RSI, and a row whose RSI is not-a-number.\<close>

theorem entry_check_fails_closed_witness:
  "(\<exists>k \<in> set [''RSI'', ''Close_QQQ'', ''EMA'', ''VWAP''].
      [''Close_QQQ'' \<mapsto> Fin 101, ''EMA'' \<mapsto> Fin 100, ''VWAP'' \<mapsto> Fin 100] k = None \<and>
      check_entry_condition_latest
        [''Close_QQQ'' \<mapsto> Fin 101, ''EMA'' \<mapsto> Fin 100, ''VWAP'' \<mapsto> Fin 100] =
        ([''Error accessing indicator columns in entry check: '' @ key_repr k], Inr False)) \<and>
   snd (check_entry_condition_latest
     [''RSI'' \<mapsto> NaN, ''Close_QQQ'' \<mapsto> Fin 101, ''EMA'' \<mapsto> Fin 100, ''VWAP'' \<mapsto> Fin 100])
     = Inr False"
  using entry_check_fails_closed
      [of "[''Close_QQQ'' \<mapsto> Fin 101, ''EMA'' \<mapsto> Fin 100, ''VWAP'' \<mapsto> Fin 100]"]
    entry_check_fails_closed
      [of "[''RSI'' \<mapsto> NaN, ''Close_QQQ'' \<mapsto> Fin 101, ''EMA'' \<mapsto> Fin 100, ''VWAP'' \<mapsto> Fin 100]"]
  by simp

subsection \<open>Priority of the exit reasons\<close>



text \<open>
  C10. The result of the Exit check (flag and reason) is the same for any two values of
  its trailing-stop percentage, for every row, buy price and other percentages.
\<close>

theorem exit_check_ignores_trailing_stop:
  "check_exit_condition_latest data_row buy_price tp sl ts1 =
   check_exit_condition_latest data_row buy_price tp sl ts2"
  by (simp add: check_exit_condition_latest_def)

section \<open>Properties of the Indicator Engine\<close>

subsection \<open>The smoothed averages are never negative\<close>

lemma length_diff [simp]: "length (diff xs) = length xs"
  by (cases xs) (simp_all add: diff_def)

lemma length_ewm_loop [simp]: "length (ewm_loop alpha minp w ow nobs xs) = length xs"
  by (induction xs arbitrary: w ow nobs) (simp_all add: Let_def)

lemma length_ewm_mean [simp]: "length (ewm_mean com xs) = length xs"
  by (cases xs) (simp_all add: ewm_mean_def Let_def)

lemma not_negative_mul: "0 \<le> a \<Longrightarrow> not_negative w \<Longrightarrow> not_negative (fl_mul (Fin a) w)"
  by (cases w) simp_all

lemma not_negative_add: "not_negative x \<Longrightarrow> not_negative y \<Longrightarrow> not_negative (fl_add x y)"
  by (cases x; cases y) simp_all

lemma not_negative_div_pos: "0 < d \<Longrightarrow> not_negative x \<Longrightarrow> not_negative (fl_div x (Fin d))"
  by (cases x) simp_all

lemma not_negative_ewm_loop:
  assumes "0 < alpha" and "alpha \<le> 1"
  shows "not_negative w \<Longrightarrow> 0 \<le> ow \<Longrightarrow> \<forall>x \<in> set xs. not_negative x \<Longrightarrow>
         \<forall>y \<in> set (ewm_loop alpha minp w ow nobs xs). not_negative y"
proof (induction xs arbitrary: w ow nobs)
  case Nil
  then show ?case by simp
next
  case (Cons cur rest)
  let ?ow = "ow * (1 - alpha)"
  let ?avg = "fl_div (fl_add (fl_mul (Fin ?ow) w) (fl_mul (Fin alpha) cur)) (Fin (?ow + alpha))"
  have ow: "0 \<le> ?ow" using Cons.prems(2) assms by simp
  then have pos: "0 < ?ow + alpha" using assms by linarith
  have cur: "not_negative cur" using Cons.prems(3) by simp
  have avg: "not_negative ?avg"
    using ow pos cur Cons.prems(1) assms
    by (intro not_negative_div_pos not_negative_add not_negative_mul) simp_all
  define w' where "w' = (if is_observation w then
               (if is_observation cur then (if w \<noteq> cur then ?avg else w) else w)
             else if is_observation cur then cur else w)"
  define ow' where "ow' = (if is_observation w then
               (if is_observation cur then 1 else ?ow) else ow)"
  have w': "not_negative w'"
    using avg cur Cons.prems(1) by (simp add: w'_def)
  have ow': "0 \<le> ow'"
    using ow Cons.prems(2) by (simp add: ow'_def)
  have rest: "\<forall>x \<in> set rest. not_negative x" using Cons.prems(3) by simp
  have unfold: "ewm_loop alpha minp w ow nobs (cur # rest) =
      (if minp \<le> (if is_observation cur then nobs + 1 else nobs) then w' else NaN)
        # ewm_loop alpha minp w' ow' (if is_observation cur then nobs + 1 else nobs) rest"
    by (simp add: Let_def w'_def ow'_def)
  show ?case
    unfolding unfold using w' Cons.IH [OF w' ow' rest] by simp
qed

lemma not_negative_ewm_mean:
  assumes "0 \<le> com" and "\<forall>x \<in> set xs. not_negative x"
  shows "\<forall>y \<in> set (ewm_mean com xs). not_negative y"
proof (cases xs)
  case Nil
  then show ?thesis by (simp add: ewm_mean_def)
next
  case (Cons v0 rest)
  have a: "0 < 1 / (1 + com)" "1 / (1 + com) \<le> 1"
    using assms(1) by simp_all
  have "\<forall>y \<in> set (ewm_loop (1 / (1 + com)) 1 v0 1 (if is_observation v0 then 1 else 0) rest).
          not_negative y"
    using assms(2) Cons by (intro not_negative_ewm_loop a) simp_all
  then show ?thesis
    using assms(2) Cons by (simp add: ewm_mean_def Let_def)
qed

lemma not_negative_rsi_gain: "\<forall>x \<in> set (rsi_gain data). not_negative x"
proof -
  have "not_negative (if fl_lt d (Fin 0) then Fin 0 else d)" for d
    by (cases d) auto
  then show ?thesis unfolding rsi_gain_def set_map by blast
qed

lemma not_negative_rsi_loss: "\<forall>x \<in> set (rsi_loss data). not_negative x"
proof -
  have "not_negative (fl_abs d)" for d
    by (cases d) auto
  then show ?thesis unfolding rsi_loss_def set_map by blast
qed

lemma rsi_of_rs_range:
  assumes "not_negative g" and "not_negative l" and "rsi_of_rs (fl_div g l) \<noteq> NaN"
  shows "fl_le (Fin 0) (rsi_of_rs (fl_div g l)) \<and> fl_le (rsi_of_rs (fl_div g l)) (Fin 100)"
proof -
  have fin: "0 \<le> r \<Longrightarrow> fl_le (Fin 0) (rsi_of_rs (Fin r)) \<and> fl_le (rsi_of_rs (Fin r)) (Fin 100)" for r
    by (simp add: rsi_of_rs_def fl_sub_def field_simps)
  have inf: "rsi_of_rs PInf = Fin 100"
    by (simp add: rsi_of_rs_def fl_sub_def)
  have nan: "rsi_of_rs NaN = NaN"
    by (simp add: rsi_of_rs_def fl_sub_def)
  from assms(1,2) have "fl_div g l = NaN \<or> fl_div g l = PInf \<or> (\<exists>r\<ge>0. fl_div g l = Fin r)"
    by (cases g; cases l) auto
  then show ?thesis using assms(3) fin inf nan by auto
qed

lemma calculate_rsi_Inr:
  "calculate_rsi data period = Inr rsi \<longleftrightarrow>
     0 \<le> period - 1 \<and>
     rsi = map rsi_of_rs (map2 fl_div (ewm_mean (period - 1) (rsi_gain data))
                                       (ewm_mean (period - 1) (rsi_loss data)))"
  by (auto simp add: calculate_rsi_def rsi_avg_gain_def rsi_avg_loss_def ewm_com_def Let_def)

lemma ewm_com_Inr: "ewm_com com vals = Inr ys \<longleftrightarrow> 0 \<le> com \<and> ys = ewm_mean com vals"
  by (auto simp add: ewm_com_def)

lemma length_rsi_gain [simp]: "length (rsi_gain data) = length data"
  by (simp add: rsi_gain_def)

lemma length_rsi_loss [simp]: "length (rsi_loss data) = length data"
  by (simp add: rsi_loss_def)

lemma rsi_of_rs_special:
  "rsi_of_rs PInf = Fin 100" "rsi_of_rs NaN = NaN"
  by (simp_all add: rsi_of_rs_def fl_sub_def)

lemma fl_div_zero:
  "fl_gt g (Fin 0) \<Longrightarrow> fl_div g (Fin 0) = PInf" "fl_div (Fin 0) (Fin 0) = NaN"
  by (cases g; simp add: fl_gt_def) simp

lemma ewm_mean_first: "xs \<noteq> [] \<Longrightarrow> ewm_mean com xs ! 0 = xs ! 0"
  by (cases xs; cases "hd xs") (simp_all add: ewm_mean_def Let_def)

lemma diff_first: "xs \<noteq> [] \<Longrightarrow> diff xs ! 0 = NaN"
  by (cases xs) (simp_all add: diff_def)

subsection \<open>The range of the RSI\<close>

text \<open>
  C6. For every series of closes (not-a-number and infinite entries included) and every
  period the computation accepts, each RSI value that is defined lies in the closed
  interval from 0 to 100.
\<close>

theorem rsi_in_range:
  assumes "calculate_rsi data period = Inr rsi" and "i < length rsi" and "rsi ! i \<noteq> NaN"
  shows "fl_le (Fin 0) (rsi ! i) \<and> fl_le (rsi ! i) (Fin 100)"
proof -
  let ?g = "ewm_mean (period - 1) (rsi_gain data)"
  let ?l = "ewm_mean (period - 1) (rsi_loss data)"
  from assms(1) have com: "0 \<le> period - 1"
    and rsi: "rsi = map rsi_of_rs (map2 fl_div ?g ?l)"
    by (simp_all add: calculate_rsi_Inr)
  from assms(2) rsi have i: "i < length ?g" "i < length ?l" by simp_all
  then have nth: "rsi ! i = rsi_of_rs (fl_div (?g ! i) (?l ! i))"
    using rsi by simp
  have g: "not_negative (?g ! i)"
    using not_negative_ewm_mean [OF com not_negative_rsi_gain] i(1) nth_mem by blast
  have l: "not_negative (?l ! i)"
    using not_negative_ewm_mean [OF com not_negative_rsi_loss] i(2) nth_mem by blast
  show ?thesis
    using rsi_of_rs_range [OF g l] assms(3) unfolding nth by simp
qed

text \<open>The closes 100, 101, 102, 101: the fourth RSI value is 650/7.\<close>

lemma rsi_example: "calculate_rsi [Fin 100, Fin 101, Fin 102, Fin 101] rsi_period_default
     = Inr [NaN, Fin 100, Fin 100, Fin (650 / 7)]"
  by (simp add: calculate_rsi_def rsi_avg_gain_def rsi_avg_loss_def ewm_com_def Let_def
    rsi_period_default_def ewm_mean_def rsi_gain_def rsi_loss_def diff_def fl_sub_def fl_gt_def rsi_of_rs_def)

theorem rsi_in_range_witness:
  "calculate_rsi [Fin 100, Fin 101, Fin 102, Fin 101] rsi_period_default
     = Inr [NaN, Fin 100, Fin 100, Fin (650 / 7)] \<and>
   fl_le (Fin 0) ([NaN, Fin 100, Fin 100, Fin (650 / 7)] ! 3) \<and>
   fl_le ([NaN, Fin 100, Fin 100, Fin (650 / 7)] ! 3) (Fin 100)"
  using rsi_in_range [OF rsi_example, of 3] rsi_example
  by simp

subsection \<open>Zero average loss\<close>

text \<open>
  C7. The RSI computation returns a series as long as its input and raises nothing. At a
  bar where the smoothed average loss is 0 and the smoothed average gain is positive, the
  RSI is 100; at a bar where both smoothed averages are 0 (a flat market), the RSI is
  not-a-number.
\<close>

theorem rsi_zero_loss:
  assumes "rsi_avg_gain data period = Inr avg_gain"
    and "rsi_avg_loss data period = Inr avg_loss"
    and "i < length data"
  shows "\<exists>rsi. calculate_rsi data period = Inr rsi \<and> length rsi = length data \<and>
           (avg_loss ! i = Fin 0 \<and> fl_gt (avg_gain ! i) (Fin 0) \<longrightarrow> rsi ! i = Fin 100) \<and>
           (avg_loss ! i = Fin 0 \<and> avg_gain ! i = Fin 0 \<longrightarrow> rsi ! i = NaN)"
proof -
  let ?rsi = "map rsi_of_rs (map2 fl_div avg_gain avg_loss)"
  have len: "length avg_gain = length data" "length avg_loss = length data"
    using assms(1,2) by (simp_all add: rsi_avg_gain_def rsi_avg_loss_def ewm_com_Inr)
  have calc: "calculate_rsi data period = Inr ?rsi"
    using assms(1,2) by (simp add: calculate_rsi_def)
  have nth: "?rsi ! i = rsi_of_rs (fl_div (avg_gain ! i) (avg_loss ! i))"
    using len assms(3) by simp
  have "avg_loss ! i = Fin 0 \<and> fl_gt (avg_gain ! i) (Fin 0) \<longrightarrow> ?rsi ! i = Fin 100"
    unfolding nth by (simp add: fl_div_zero rsi_of_rs_special)
  moreover have "avg_loss ! i = Fin 0 \<and> avg_gain ! i = Fin 0 \<longrightarrow> ?rsi ! i = NaN"
    unfolding nth by (simp add: rsi_of_rs_special)
  ultimately show ?thesis using calc len by simp
qed

text \<open>A rise from 100 to 101, and a flat pair of closes.\<close>

lemma rsi_averages_rise:
  "rsi_avg_gain [Fin 100, Fin 101] rsi_period_default = Inr [NaN, Fin 1]"
  "rsi_avg_loss [Fin 100, Fin 101] rsi_period_default = Inr [NaN, Fin 0]"
  by (simp_all add: rsi_avg_gain_def rsi_avg_loss_def ewm_com_def rsi_period_default_def
        ewm_mean_def rsi_gain_def rsi_loss_def diff_def fl_sub_def fl_gt_def)

lemma rsi_averages_flat:
  "rsi_avg_gain [Fin 100, Fin 100] rsi_period_default = Inr [NaN, Fin 0]"
  "rsi_avg_loss [Fin 100, Fin 100] rsi_period_default = Inr [NaN, Fin 0]"
  by (simp_all add: rsi_avg_gain_def rsi_avg_loss_def ewm_com_def rsi_period_default_def
        ewm_mean_def rsi_gain_def rsi_loss_def diff_def fl_sub_def fl_gt_def)

theorem rsi_zero_loss_witness:
  "(\<exists>rsi. calculate_rsi [Fin 100, Fin 101] rsi_period_default = Inr rsi \<and>
          length rsi = 2 \<and> rsi ! 1 = Fin 100) \<and>
   (\<exists>rsi. calculate_rsi [Fin 100, Fin 100] rsi_period_default = Inr rsi \<and>
          length rsi = 2 \<and> rsi ! 1 = NaN)"
  using rsi_zero_loss [OF rsi_averages_rise, of 1] rsi_zero_loss [OF rsi_averages_flat, of 1]
  by (simp add: fl_gt_def numeral_2_eq_2)

subsection \<open>Warm-up\<close>




subsection \<open>Zero volume\<close>

lemma vwap_columns_bars:
  "vwap_columns (frame_of_bars bars) =
     Inr (frame_of_bars bars @
          [(''Typical_Price'', typical_price_of bars),
           (''Cumulative_TP_Volume'',
              cumsum (map2 fl_mul (typical_price_of bars) (map bar_volume bars))),
           (''Cumulative_Volume'', cumsum (map bar_volume bars)),
           (''VWAP'', vwap_of bars)])"
  by (simp add: vwap_columns_def frame_of_bars_def getcol_def setcol_def Let_def
        typical_price_of_def vwap_of_def)

lemma indicators_bars:
  "indicators bars =
     Inr (frame_of_bars bars @
          [(''VWAP'', vwap_of bars),
           (''EMA'', ewm_mean 7 (map bar_close bars)),
           (''RSI'', map rsi_of_rs
               (map2 fl_div (ewm_mean 13 (rsi_gain (map bar_close bars)))
                            (ewm_mean 13 (rsi_loss (map bar_close bars)))))])"
  unfolding indicators_def vwap_columns_bars
  by (simp add: ema_rsi_columns_def frame_of_bars_def
        getcol_def setcol_def Let_def drop_columns_def ewm_span_def ema_period_def
        calculate_rsi_def rsi_avg_gain_def rsi_avg_loss_def ewm_com_def
        rsi_period_default_def)

lemma run_strategy_check_bars:
  "run_strategy_check (frame_of_bars bars) =
     (if bars = [] then CouldNotFetch
      else case indicators bars of
             Inl e \<Rightarrow> Raised e
           | Inr df \<Rightarrow>
              (case snd (check_entry_condition_latest (iloc_last df)) of
                 Inl e \<Rightarrow> Raised e
               | Inr b \<Rightarrow> if b then EntrySignal (iloc_last df) else NoEntrySignal))"
proof -
  have e1: "frame_empty (frame_of_bars bars) = (bars = [])"
    by (simp add: frame_empty_def frame_of_bars_def)
  have e2: "indicators bars = Inr df \<Longrightarrow> frame_empty df = (bars = [])" for df
    by (auto simp add: indicators_bars frame_empty_def frame_of_bars_def)
  show ?thesis
  proof (cases "bars = []")
    case True
    then show ?thesis unfolding run_strategy_check_def e1 by simp
  next
    case False
    obtain df where df: "indicators bars = Inr df"
      by (simp add: indicators_bars)
    then have "ema_rsi_columns (frame_of_bars bars @
          [(''Typical_Price'', typical_price_of bars),
           (''Cumulative_TP_Volume'',
              cumsum (map2 fl_mul (typical_price_of bars) (map bar_volume bars))),
           (''Cumulative_Volume'', cumsum (map bar_volume bars)),
           (''VWAP'', vwap_of bars)]) = Inr df"
      by (simp add: indicators_def vwap_columns_bars)
    then show ?thesis
      using False df e2 [OF df]
      by (simp add: run_strategy_check_def e1 vwap_columns_bars Let_def)
  qed
qed

lemma cumsum_from_zero:
  "\<forall>x \<in> set xs. x = Fin 0 \<Longrightarrow> cumsum_from (Fin 0) xs = replicate (length xs) (Fin 0)"
  by (induction xs) (simp_all add: Let_def)

lemma cumsum_from_zero_or_nan:
  "\<forall>x \<in> set xs. x = Fin 0 \<or> x = NaN \<Longrightarrow>
   \<forall>y \<in> set (cumsum_from (Fin 0) xs). y = Fin 0 \<or> y = NaN"
  by (induction xs) (auto simp add: Let_def)

lemma fl_mul_zero: "fl_mul t (Fin 0) = Fin 0 \<or> fl_mul t (Fin 0) = NaN"
  by (cases t) simp_all

lemma map2_mul_zero:
  "\<forall>v \<in> set vs. v = Fin 0 \<Longrightarrow> \<forall>y \<in> set (map2 fl_mul ts vs). y = Fin 0 \<or> y = NaN"
proof (induction ts arbitrary: vs)
  case Nil
  then show ?case by simp
next
  case (Cons t ts)
  show ?case
  proof (cases vs)
    case Nil
    then show ?thesis by simp
  next
    case (Cons v vs')
    then have "v = Fin 0" and "\<forall>v \<in> set vs'. v = Fin 0"
      using Cons.prems by simp_all
    then show ?thesis
      using Cons Cons.IH [of vs'] fl_mul_zero [of t] by auto
  qed
qed

lemma map2_div_zero:
  "\<forall>x \<in> set xs. x = Fin 0 \<or> x = NaN \<Longrightarrow>
   map2 fl_div xs (replicate (length xs) (Fin 0)) = replicate (length xs) NaN"
  by (induction xs) auto

lemma length_typical_price_of [simp]: "length (typical_price_of bars) = length bars"
  by (simp add: typical_price_of_def)

lemma length_cumsum_from [simp]: "length (cumsum_from acc xs) = length xs"
  by (induction xs arbitrary: acc) (simp_all add: Let_def)

lemma vwap_zero_volume:
  assumes "\<forall>b \<in> set bars. bar_volume b = Fin 0"
  shows "vwap_of bars = replicate (length bars) NaN"
proof -
  let ?vol = "map bar_volume bars"
  let ?tpv = "map2 fl_mul (typical_price_of bars) ?vol"
  have vol: "\<forall>v \<in> set ?vol. v = Fin 0" using assms by simp
  have cv: "cumsum ?vol = replicate (length bars) (Fin 0)"
    using cumsum_from_zero [OF vol] by (simp add: cumsum_def)
  have ctv: "\<forall>y \<in> set (cumsum ?tpv). y = Fin 0 \<or> y = NaN"
    unfolding cumsum_def by (intro cumsum_from_zero_or_nan map2_mul_zero vol)
  have len: "length (cumsum ?tpv) = length bars"
    by (simp add: cumsum_def)
  show ?thesis
    using map2_div_zero [OF ctv] by (simp add: vwap_of_def cv len)
qed

text \<open>
  C9. For a Bar Series of 20 bars with every close equal to 100 and every volume equal to
  0 (whatever the open, high and low), the indicators are computed without an error, the
  VWAP is not-a-number at every bar, the Entry check on the latest bar prints nothing and
  returns the no-signal value, and the run ends with no entry signal.
\<close>

theorem zero_volume_no_signal:
  assumes "length bars = 20"
    and "\<forall>b \<in> set bars. bar_close b = Fin 100 \<and> bar_volume b = Fin 0"
  shows "\<exists>df. indicators bars = Inr df \<and>
              map_of df ''VWAP'' = Some (replicate 20 NaN) \<and>
              check_entry_condition_latest (iloc_last df) = ([], Inr False) \<and>
              run_strategy_check (frame_of_bars bars) = NoEntrySignal"
proof -
  define ema where "ema = ewm_mean 7 (map bar_close bars)"
  define rsi where "rsi = map rsi_of_rs
               (map2 fl_div (ewm_mean 13 (rsi_gain (map bar_close bars)))
                            (ewm_mean 13 (rsi_loss (map bar_close bars))))"
  define df where "df = frame_of_bars bars @
          [(''VWAP'', vwap_of bars), (''EMA'', ema), (''RSI'', rsi)]"
  have vol: "\<forall>b \<in> set bars. bar_volume b = Fin 0" using assms(2) by simp
  have vwap: "vwap_of bars = replicate 20 NaN"
    using vwap_zero_volume [OF vol] assms(1) by simp
  have ind: "indicators bars = Inr df"
    unfolding df_def ema_def rsi_def by (rule indicators_bars)
  have col: "map_of df ''VWAP'' = Some (replicate 20 NaN)"
    by (simp add: df_def frame_of_bars_def vwap)
  have row: "iloc_last df ''RSI'' = Some (last rsi)"
    "iloc_last df ''Close_QQQ'' = Some (last (map bar_close bars))"
    "iloc_last df ''EMA'' = Some (last ema)"
    "iloc_last df ''VWAP'' = Some NaN"
    by (simp_all add: df_def iloc_last_def frame_of_bars_def vwap)
  have chk: "check_entry_condition_latest (iloc_last df) = ([], Inr False)"
    using entry_check_complete [OF row] by simp
  have ne: "bars \<noteq> []" using assms(1) by auto
  have run: "run_strategy_check (frame_of_bars bars) = NoEntrySignal"
    using ne by (simp add: run_strategy_check_bars ind chk)
  show ?thesis using ind col chk run by blast
qed

text \<open>Twenty bars with open, high, low and close 100 and volume 0.\<close>

theorem zero_volume_no_signal_witness:
  "length (replicate 20 flat_bar) = 20 \<and>
   bar_close flat_bar = Fin 100 \<and> bar_volume flat_bar = Fin 0 \<and>
   (\<exists>df. indicators (replicate 20 flat_bar) = Inr df \<and>
         map_of df ''VWAP'' = Some (replicate 20 NaN) \<and>
         check_entry_condition_latest (iloc_last df) = ([], Inr False) \<and>
         run_strategy_check (frame_of_bars (replicate 20 flat_bar)) = NoEntrySignal)"
  using zero_volume_no_signal [of "replicate 20 flat_bar"]
  by (simp add: flat_bar_def)

end
